theory Spec2Isabelle
  imports Complex_Main "HOL-Library.Sublist" "HOL-Library.Log_Nat"
begin

section \<open>Data model of the Loki datasource\<close>

text \<open>
  A query target (\<^verbatim>\<open>LokiQuery\<close>, extending the host's \<^verbatim>\<open>DataQuery\<close>): the expression
  string, the optional display format and the optional hide flag. The record is
  extensible, so whatever further fields a target carries are its \<open>more\<close> part.
\<close>

record LokiQuery =
  refId :: string
  expr :: string
  format :: "string option"
  hide :: "bool option"

text \<open>The action handed to \<^verbatim>\<open>modifyQuery\<close>: only \<^verbatim>\<open>type\<close>, \<^verbatim>\<open>key\<close> and \<^verbatim>\<open>value\<close> are read.\<close>

record action =
  type :: string
  key :: string
  "value" :: string

text \<open>
  A JavaScript number is a double: a finite value, given here by the rational it
  denotes, or one of \<^verbatim>\<open>NaN\<close>, \<^verbatim>\<open>Infinity\<close> and \<^verbatim>\<open>-Infinity\<close>. The sign of zero is not
  kept.
\<close>

datatype number = Num rat | NaN | PosInfinity | NegInfinity

text \<open>
  What \<^verbatim>\<open>parseQuery\<close> returns (label selector and line filter), and the parameter
  set of a batch request, which spreads the defaults, the parsed query, the two
  time bounds and the line limit into one object.
\<close>

record parsed_query =
  query' :: string
  regexp :: string

record query_params = parsed_query +
  direction :: string
  limit :: int
  start :: number
  end' :: number

text \<open>
  A dashboard time: a date-math string still to be parsed, or a moment, given by
  what its \<^verbatim>\<open>valueOf()\<close> returns (\<^verbatim>\<open>NaN\<close> for an invalid moment).
\<close>

datatype date = DateString string | DateTime number

record time_range =
  "from" :: date
  to :: date

record DataQueryOptions =
  targets :: "LokiQuery list"
  range :: time_range
  intervalMs :: int
  streaming :: "bool option"

text \<open>A log stream as the backend returns it; \<^verbatim>\<open>search\<close> is the tag the batch path adds.\<close>

record entry =
  ts :: string
  line :: string

record LogsStream =
  labels :: string
  entries :: "entry list"
  search :: "string option"

text \<open>
  What the transport settles a request with. A fulfilled request and a rejected
  one both carry a response object: numeric status, status text and a body, each
  of which may be absent. The body is a string or an object; of an object the
  code reads \<^verbatim>\<open>message\<close>, \<^verbatim>\<open>streams\<close> and \<^verbatim>\<open>values\<close>.
\<close>

record body_obj =
  message :: "string option"
  streams :: "LogsStream list option"
  "values" :: "string list option"

datatype body = Text string | Obj body_obj

record response =
  status :: "int option"
  statusText :: "string option"
  data :: "body option"

text \<open>A thrown \<^verbatim>\<open>TypeError\<close>, or the rejection reason of a request.\<close>

datatype error = TypeError | Rejection response

record request =
  apiUrl :: string
  params :: "query_params option"

text \<open>The model the aggregation utility returns: its rows and the series derived from them.\<close>

record ('row, 'series) LogsModel =
  rows :: "'row list"
  series :: "'series list option"

text \<open>The result of the health check.\<close>

record health =
  status :: string
  message :: string

text \<open>
  The collaborators of the datasource, which live outside this module: the
  request transport (\<^verbatim>\<open>backendSrv.datasourceRequest\<close>, answering the \<open>n\<close>-th call of an
  operation), the template service, the query parser and formatter, the selector
  helper, the date-math parser (\<open>None\<close> when it returns \<^verbatim>\<open>undefined\<close>, else the
  \<^verbatim>\<open>valueOf()\<close> of the moment it returns), the clock and the polling interval (whole
  milliseconds) and the two log-model utilities.
\<close>

record ('row, 'series) env =
  datasourceRequest :: "nat \<Rightarrow> request \<Rightarrow> response + response option"
  replace :: "string \<Rightarrow> string"
  parseQuery :: "string \<Rightarrow> parsed_query"
  formatQuery :: "string \<Rightarrow> string \<Rightarrow> string"
  addLabelToSelector :: "string \<Rightarrow> string \<Rightarrow> string \<Rightarrow> string"
  dateMath_parse :: "string \<Rightarrow> bool \<Rightarrow> number option"
  now :: int
  EXPLORE_POLLING_INTERVAL_MS :: int
  mergeStreamsToLogs :: "LogsStream list \<Rightarrow> int \<Rightarrow> ('row, 'series) LogsModel"
  makeSeriesForLogs :: "'row list \<Rightarrow> int \<Rightarrow> 'series list"

text \<open>The datasource instance: its settings and the configured line cap.\<close>

record LokiDatasource =
  url :: string
  id' :: int
  maxLines :: int

section \<open>JavaScript conversions\<close>

text \<open>Truthiness of the values the code tests: an absent or empty string, an absent or zero number, an absent or false flag are falsy.\<close>

definition truthy_string :: "string option \<Rightarrow> bool" where
  "truthy_string s = (case s of None \<Rightarrow> False | Some t \<Rightarrow> t \<noteq> [])"

definition truthy_number :: "int option \<Rightarrow> bool" where
  "truthy_number n = (case n of None \<Rightarrow> False | Some k \<Rightarrow> k \<noteq> 0)"

definition truthy_bool :: "bool option \<Rightarrow> bool" where
  "truthy_bool b = (case b of None \<Rightarrow> False | Some c \<Rightarrow> c)"

definition truthy_body :: "body option \<Rightarrow> bool" where
  "truthy_body b = (case b of None \<Rightarrow> False | Some (Text t) \<Rightarrow> t \<noteq> [] | Some (Obj _) \<Rightarrow> True)"

text \<open>Decimal digits of a number, as a template literal prints an integer.\<close>

fun digits :: "nat \<Rightarrow> string" where
  "digits n =
     (if n < 10 then [''0123456789'' ! n]
      else digits (n div 10) @ [''0123456789'' ! (n mod 10)])"

definition number_to_string :: "int \<Rightarrow> string" where
  "number_to_string k = (if k < 0 then CHR ''-'' # digits (nat (- k)) else digits (nat k))"

text \<open>A body inside a template literal: a string is itself, an object prints as \<^verbatim>\<open>[object Object]\<close>.\<close>

definition body_to_string :: "body \<Rightarrow> string" where
  "body_to_string b = (case b of Text t \<Rightarrow> t | Obj _ \<Rightarrow> ''[object Object]'')"

text \<open>\<^verbatim>\<open>err.data.message\<close>: a string has no such property.\<close>

definition body_message :: "body option \<Rightarrow> string option" where
  "body_message b = (case b of Some (Obj obj) \<Rightarrow> body_obj.message obj | _ \<Rightarrow> None)"

text \<open>\<^verbatim>\<open>res.data.values\<close>, read only where \<^verbatim>\<open>res.data\<close> is truthy.\<close>

definition body_values :: "body option \<Rightarrow> string list option" where
  "body_values b = (case b of Some (Obj obj) \<Rightarrow> values obj | _ \<Rightarrow> None)"

section \<open>Double-precision arithmetic\<close>

text \<open>
  The product of two doubles is the exact product rounded to the nearest double,
  ties to the even significand (IEEE 754 binary64, 53 significant bits, exponents
  from \<open>-1022\<close> to \<open>1023\<close>, subnormals below, infinity above).
\<close>

definition pow2 :: "int \<Rightarrow> rat" where
  "pow2 k = (if 0 \<le> k then 2 ^ nat k else 1 / 2 ^ nat (- k))"

text \<open>For \<open>a > 0\<close>, the exponent \<open>e\<close> with \<open>2\<^sup>e \<le> a < 2\<^sup>e\<^sup>+\<^sup>1\<close>.\<close>

definition floor_log2 :: "rat \<Rightarrow> int" where
  "floor_log2 a =
     (let k = bitlen (fst (quotient_of a)) - bitlen (snd (quotient_of a))
      in if pow2 k \<le> a then k else k - 1)"

definition round_half_even :: "rat \<Rightarrow> int" where
  "round_half_even q =
     (let f = \<lfloor>q\<rfloor>; r = q - of_int f
      in if r < 1 / 2 then f else if 1 / 2 < r then f + 1 else if even f then f else f + 1)"

definition round_double :: "rat \<Rightarrow> number" where
  "round_double q =
     (if q = 0 then Num 0
      else
        (let a = \<bar>q\<bar>;
             e = max (floor_log2 a) (- 1022);
             quantum = pow2 (e - 52);
             r = of_int (round_half_even (a / quantum)) * quantum
         in if pow2 1024 \<le> r then (if 0 < q then PosInfinity else NegInfinity)
            else Num (if 0 < q then r else - r)))"

definition number_sign :: "number \<Rightarrow> int" where
  "number_sign x =
     (case x of Num q \<Rightarrow> (if q < 0 then - 1 else if q = 0 then 0 else 1)
      | NaN \<Rightarrow> 0 | PosInfinity \<Rightarrow> 1 | NegInfinity \<Rightarrow> - 1)"

text \<open>The operator \<^verbatim>\<open>*\<close> and \<^verbatim>\<open>Math.ceil\<close>.\<close>

definition js_times :: "number \<Rightarrow> number \<Rightarrow> number" where
  "js_times x y =
     (case (x, y) of
        (Num a, Num b) \<Rightarrow> round_double (a * b)
      | _ \<Rightarrow>
          if x = NaN \<or> y = NaN \<or> number_sign x = 0 \<or> number_sign y = 0 then NaN
          else if number_sign x = number_sign y then PosInfinity
          else NegInfinity)"

definition Math_ceil :: "number \<Rightarrow> number" where
  "Math_ceil x = (case x of Num q \<Rightarrow> Num (of_int \<lceil>q\<rceil>) | _ \<Rightarrow> x)"

section \<open>The datasource instance\<close>

definition DEFAULT_MAX_LINES :: int where
  "DEFAULT_MAX_LINES = 1000"

text \<open>
  The constructor reads the line cap from the settings,
  \<^verbatim>\<open>parseInt(settingsData.maxLines, 10) || DEFAULT_MAX_LINES\<close>; its last argument here is what
  \<^verbatim>\<open>parseInt\<close> gives, \<open>None\<close> for \<^verbatim>\<open>NaN\<close>.
\<close>

definition new_LokiDatasource :: "string \<Rightarrow> int \<Rightarrow> int option \<Rightarrow> LokiDatasource" where
  "new_LokiDatasource u i parsed =
     \<lparr>url = u, id' = i,
      maxLines = (if truthy_number parsed then the parsed else DEFAULT_MAX_LINES)\<rparr>"

section \<open>Requests and the health check\<close>

text \<open>
  \<^verbatim>\<open>_request(apiUrl, data)\<close> hands the transport one request. The text of the URL
  (base URL, path and percent-encoded parameters) is not modelled: the transport
  is given the path and the parameter object.
\<close>

definition request' :: "('row, 'series) env \<Rightarrow> nat \<Rightarrow> string \<Rightarrow> query_params option \<Rightarrow> response + response option" where
  "request' E n path d = datasourceRequest E n \<lparr>apiUrl = path, params = d\<rparr>"

definition testDatasource :: "('row, 'series) env \<Rightarrow> health" where
  "testDatasource E =
     (case request' E 0 ''/api/prom/label'' None of
        Inr res \<Rightarrow>
          (if (case res of
                 None \<Rightarrow> False
               | Some r \<Rightarrow>
                   truthy_body (data r) \<and>
                   (case body_values (data r) of None \<Rightarrow> False | Some vs \<Rightarrow> length vs > 0))
           then \<lparr>status = ''success'', message = ''Data source connected and labels found.''\<rparr>
           else \<lparr>status = ''error'',
                 message = ''Data source connected, but no labels received. Verify that Loki and Promtail is configured properly.''\<rparr>)
      | Inl err \<Rightarrow>
          (let message = ''Loki: '';
               message = (if truthy_string (statusText err) then message @ the (statusText err)
                          else message @ ''Cannot connect to Loki'');
               message = (if truthy_number (response.status err)
                          then message @ ''. '' @ number_to_string (the (response.status err))
                          else message);
               message = (if truthy_body (data err) \<and> truthy_string (body_message (data err))
                          then message @ ''. '' @ the (body_message (data err))
                          else if truthy_body (data err)
                          then message @ ''. '' @ body_to_string (the (data err))
                          else message)
           in \<lparr>status = ''error'', message = message\<rparr>))"

definition body_streams :: "body option \<Rightarrow> LogsStream list option" where
  "body_streams b = (case b of Some (Obj obj) \<Rightarrow> streams obj | _ \<Rightarrow> None)"

text \<open>The streams the batch path takes from one result: \<^verbatim>\<open>result.data.streams || []\<close> where \<^verbatim>\<open>result.data\<close> is truthy, none otherwise.\<close>

definition result_streams :: "response \<Rightarrow> LogsStream list" where
  "result_streams result =
     (if truthy_body (data result)
      then (case body_streams (data result) of None \<Rightarrow> [] | Some ss \<Rightarrow> ss)
      else [])"

section \<open>Query preparation\<close>

text \<open>
  \<^verbatim>\<open>getTime(date, roundUp)\<close>: a string is parsed first (the flag goes to the parser
  only), then \<^verbatim>\<open>Math.ceil(date.valueOf() * 1e6)\<close> is computed, in doubles. Calling
  \<^verbatim>\<open>valueOf\<close> on the \<^verbatim>\<open>undefined\<close> of a failed parse throws.
\<close>

definition getTime :: "('row, 'series) env \<Rightarrow> date \<Rightarrow> bool \<Rightarrow> error + number" where
  "getTime E d roundUp =
     (let d' = (case d of DateString s \<Rightarrow> dateMath_parse E s roundUp | DateTime v \<Rightarrow> Some v)
      in case d' of
           None \<Rightarrow> Inl TypeError
         | Some v \<Rightarrow> Inr (Math_ceil (js_times v (Num 1000000))))"

text \<open>
  In \<^verbatim>\<open>prepareQueryTarget\<close> the start of the live window is the clock less the polling
  interval, a difference of whole milliseconds, which moment computes exactly.
\<close>

definition prepareQueryTarget ::
  "('row, 'series) env \<Rightarrow> LokiDatasource \<Rightarrow> 'a LokiQuery_scheme \<Rightarrow> 'b DataQueryOptions_scheme \<Rightarrow> error + query_params" where
  "prepareQueryTarget E ds target options =
     (let interpolated = replace E (expr target);
          liveStreamStart = Num (of_int (now E - EXPLORE_POLLING_INTERVAL_MS E));
          liveStreamEnd = Num (of_int (now E))
      in case (if truthy_bool (streaming options) then getTime E (DateTime liveStreamStart) False
               else getTime E (from (range options)) False) of
           Inl e \<Rightarrow> Inl e
         | Inr startTime \<Rightarrow>
             (case (if truthy_bool (streaming options) then getTime E (DateTime liveStreamEnd) True
                    else getTime E (to (range options)) True) of
                Inl e \<Rightarrow> Inl e
              | Inr endTime \<Rightarrow>
                  Inr \<lparr>query' = query' (parseQuery E interpolated),
                       regexp = regexp (parseQuery E interpolated),
                       direction = ''BACKWARD'',
                       limit = maxLines ds,
                       start = startTime,
                       end' = endTime\<rparr>))"

definition prepareStreamQueryTarget ::
  "('row, 'series) env \<Rightarrow> 'a LokiQuery_scheme \<Rightarrow> 'b DataQueryOptions_scheme \<Rightarrow> parsed_query" where
  "prepareStreamQueryTarget E target options =
     (let interpolated = replace E (expr target) in parseQuery E interpolated)"

section \<open>Streaming\<close>

text \<open>
  What \<^verbatim>\<open>stream\<close> returns: the empty observable, or the combination of one tail
  source per target, each a socket to open on the tail path with the target's
  parameters. What the combination emits is not modelled. Beside it the model
  returns the lookups \<^verbatim>\<open>_stream\<close> sends at once through \<^verbatim>\<open>backendSrv.get\<close>.
\<close>

datatype tail_observable = EmptyObservable | CombineLatest "(string \<times> parsed_query) list"

definition stream ::
  "('row, 'series) env \<Rightarrow> LokiDatasource \<Rightarrow> 'b DataQueryOptions_scheme \<Rightarrow> tail_observable \<times> string list" where
  "stream E ds options =
     (let queryTargets =
            map (\<lambda>target. prepareStreamQueryTarget E target options)
              (filter (\<lambda>target. expr target \<noteq> [] \<and> \<not> truthy_bool (hide target)) (targets options))
      in if length queryTargets = 0 then (EmptyObservable, [])
         else (CombineLatest (map (\<lambda>target. (''/api/prom/tail'', target)) queryTargets),
               map (\<lambda>target. ''api/datasources/'' @ number_to_string (id' ds)) queryTargets))"

section \<open>Batch query\<close>

text \<open>A \<^verbatim>\<open>map\<close> whose callback may throw: the first exception ends it.\<close>

fun map_throwing :: "('a \<Rightarrow> error + 'b) \<Rightarrow> 'a list \<Rightarrow> error + 'b list" where
  "map_throwing f [] = Inr []"
| "map_throwing f (x # xs) =
     (case f x of
        Inl e \<Rightarrow> Inl e
      | Inr y \<Rightarrow> (case map_throwing f xs of Inl e \<Rightarrow> Inl e | Inr ys \<Rightarrow> Inr (y # ys)))"

text \<open>
  \<^verbatim>\<open>Promise.all\<close>: the values in the order of the promises when all are fulfilled, a
  rejection when one is rejected. Of several rejections the model reports the one
  of the lowest index, where JavaScript reports the earliest in time.
\<close>

fun promise_all :: "(response + 'a) list \<Rightarrow> error + 'a list" where
  "promise_all [] = Inr []"
| "promise_all (p # ps) =
     (case p of
        Inl r \<Rightarrow> Inl (Rejection r)
      | Inr v \<Rightarrow> (case promise_all ps of Inl e \<Rightarrow> Inl e | Inr vs \<Rightarrow> Inr (v # vs)))"

text \<open>
  The loop over the results, from index \<open>i\<close> on. Reading \<^verbatim>\<open>data\<close> of a null result
  throws, and so does reading \<^verbatim>\<open>regexp\<close> of a target the index does not reach.
\<close>

function query_loop ::
  "nat \<Rightarrow> response option list \<Rightarrow> query_params list \<Rightarrow> LogsStream list \<Rightarrow> error + LogsStream list" where
  "query_loop i results queryTargets allStreams =
     (if i < length results then
        (case results ! i of
           None \<Rightarrow> Inl TypeError
         | Some result \<Rightarrow>
             if truthy_body (data result) then
               (case (case body_streams (data result) of None \<Rightarrow> [] | Some ss \<Rightarrow> ss) of
                  [] \<Rightarrow> query_loop (i + 1) results queryTargets allStreams
                | s # ss \<Rightarrow>
                    if i < length queryTargets then
                      query_loop (i + 1) results queryTargets
                        (allStreams @ map (\<lambda>stream. stream\<lparr>search := Some (regexp (queryTargets ! i))\<rparr>) (s # ss))
                    else Inl TypeError)
             else query_loop (i + 1) results queryTargets allStreams)
      else Inr allStreams)"
  by pat_completeness auto
termination
  by (relation "measure (\<lambda>(i, results, queryTargets, allStreams). length results - i)") auto

text \<open>
  The callback run on the results: it collects the tagged streams, then looks at
  the format of \<^verbatim>\<open>options.targets[0]\<close>. The value is the \<^verbatim>\<open>data\<close> array of the
  response: raw streams, or the series of the merged model.
\<close>

definition query_then ::
  "('row, 'series) env \<Rightarrow> LokiDatasource \<Rightarrow> 'b DataQueryOptions_scheme \<Rightarrow> query_params list \<Rightarrow>
   response option list \<Rightarrow> error + (LogsStream + 'series) list" where
  "query_then E ds options queryTargets results =
     (case query_loop 0 results queryTargets [] of
        Inl e \<Rightarrow> Inl e
      | Inr allStreams \<Rightarrow>
          (case targets options of
             [] \<Rightarrow> Inl TypeError
           | t # _ \<Rightarrow>
               if format t = Some ''time_series'' then
                 (let logs = mergeStreamsToLogs E allStreams (maxLines ds);
                      logs = logs\<lparr>series := Some (makeSeriesForLogs E (rows logs) (intervalMs options))\<rparr>
                  in Inr (map Inr (the (series logs))))
               else Inr (map Inl allStreams)))"

text \<open>
  \<^verbatim>\<open>query\<close>: the outcome of the returned promise, and the requests handed to the
  transport, in the order of submission.
\<close>

definition query ::
  "('row, 'series) env \<Rightarrow> LokiDatasource \<Rightarrow> 'b DataQueryOptions_scheme \<Rightarrow>
   (error + (LogsStream + 'series) list) \<times> request list" where
  "query E ds options =
     (case map_throwing (\<lambda>target. prepareQueryTarget E ds target options)
             (filter (\<lambda>target. expr target \<noteq> [] \<and> \<not> truthy_bool (hide target)) (targets options)) of
        Inl e \<Rightarrow> (Inl e, [])
      | Inr queryTargets \<Rightarrow>
          if length queryTargets = 0 then (Inr [], [])
          else
            (let requests = map (\<lambda>target. \<lparr>apiUrl = ''/api/prom/query'', params = Some target\<rparr>) queryTargets;
                 queries = map (\<lambda>(n, target). request' E n ''/api/prom/query'' (Some target))
                             (enumerate 0 queryTargets)
             in (case promise_all queries of
                   Inl e \<Rightarrow> Inl e
                 | Inr results \<Rightarrow> query_then E ds options queryTargets results,
                 requests)))"

section \<open>Merging streams\<close>

definition mergeStreams ::
  "('row, 'series) env \<Rightarrow> LokiDatasource \<Rightarrow> LogsStream list \<Rightarrow> int \<Rightarrow> ('row, 'series) LogsModel" where
  "mergeStreams E ds strs interval =
     (let logs = mergeStreamsToLogs E strs (maxLines ds);
          logs = logs\<lparr>series := Some (makeSeriesForLogs E (rows logs) interval)\<rparr>
      in logs)"

section \<open>Query editing\<close>

text \<open>
  Query objects live in a store, a reference being an index into it. The object
  spread of \<^verbatim>\<open>modifyQuery\<close> allocates a new object at the end of the store; the
  function returns the store after the call and the reference to the new object.
  A reference to nothing is \<^verbatim>\<open>undefined\<close>, whose property cannot be read.
\<close>

definition modifyQuery ::
  "('row, 'series) env \<Rightarrow> 'a LokiQuery_scheme list \<Rightarrow> nat \<Rightarrow> 'c action_scheme \<Rightarrow>
   error + ('a LokiQuery_scheme list \<times> nat)" where
  "modifyQuery E store ref a =
     (if ref < length store then
        (let q = store ! ref;
             parsed = parseQuery E (if expr q = [] then [] else expr q);
             selector = query' parsed;
             selector = (if type a = ''ADD_FILTER''
                         then addLabelToSelector E selector (key a) (value a)
                         else selector);
             expression = formatQuery E selector (regexp parsed)
         in Inr (store @ [q\<lparr>expr := expression\<rparr>], length store))
      else Inl TypeError)"

definition getHighlighterExpression :: "('row, 'series) env \<Rightarrow> 'a LokiQuery_scheme \<Rightarrow> string" where
  "getHighlighterExpression E q = regexp (parseQuery E (expr q))"

section \<open>The aggregation utility\<close>

text \<open>
  Modelled from the spec: \<^verbatim>\<open>mergeStreamsToLogs\<close> (module \<^verbatim>\<open>./result_transformer\<close>), which is
  not among the sources. The spec gives it the extraction of the rows, their
  ordering and the enforcement of the cap it is handed: the log model is a capped,
  time-ordered sequence of rows, each carrying the labels and the search term of
  its stream, and of more rows than the cap exactly that many are kept. How a
  timestamp string reads as a time is not said, so the reading is a parameter.
  The call has no direction argument; the rows are ordered newest first, which is
  the order of the default direction \<^verbatim>\<open>BACKWARD\<close>. Of a negative cap the spec says
  nothing; no row is kept then.
\<close>

record log_row =
  row_ts :: string
  row_line :: string
  row_labels :: string
  row_search :: "string option"

definition stream_rows :: "LogsStream \<Rightarrow> log_row list" where
  "stream_rows s =
     map (\<lambda>e. \<lparr>row_ts = ts e, row_line = line e, row_labels = labels s, row_search = search s\<rparr>)
       (entries s)"

definition mergeStreamsToLogs_spec ::
  "(string \<Rightarrow> rat) \<Rightarrow> LogsStream list \<Rightarrow> int \<Rightarrow> (log_row, 'series) LogsModel" where
  "mergeStreamsToLogs_spec time_of strs cap =
     \<lparr>rows = take (nat cap)
               (rev (sort_key (\<lambda>r. time_of (row_ts r)) (concat (map stream_rows strs)))),
      series = None\<rparr>"

text \<open>The number of raw rows of a list of streams.\<close>

definition raw_rows :: "LogsStream list \<Rightarrow> nat" where
  "raw_rows strs = sum_list (map (\<lambda>s. length (entries s)) strs)"

section \<open>An environment for concrete evaluations\<close>

text \<open>
  Stand-ins for the collaborators, around a given transport: the template service
  changes nothing, the parser splits an expression at its first blank, the
  formatter joins with a blank, no date string parses, the aggregation keeps the
  first rows up to the cap, and the series of some rows is their number. The
  theorems below hold for every environment; this one only serves to evaluate
  them.
\<close>

definition example_env :: "(nat \<Rightarrow> request \<Rightarrow> response + response option) \<Rightarrow> (log_row, nat) env" where
  "example_env transport =
     \<lparr>datasourceRequest = transport,
      replace = (\<lambda>s. s),
      parseQuery = (\<lambda>s. \<lparr>query' = takeWhile (\<lambda>c. c \<noteq> CHR '' '') s,
                          regexp = drop 1 (dropWhile (\<lambda>c. c \<noteq> CHR '' '') s)\<rparr>),
      formatQuery = (\<lambda>sel re. if re = [] then sel else sel @ '' '' @ re),
      addLabelToSelector = (\<lambda>sel k v. sel @ k @ v),
      dateMath_parse = (\<lambda>s up. None),
      now = 0,
      EXPLORE_POLLING_INTERVAL_MS = 1000,
      mergeStreamsToLogs =
        (\<lambda>strs cap. \<lparr>rows = take (nat cap) (concat (map stream_rows strs)), series = None\<rparr>),
      makeSeriesForLogs = (\<lambda>rs i. [length rs])\<rparr>"

text \<open>Transports that settle every request alike, with a result or with a rejection.\<close>

definition fulfilling_transport :: "response option \<Rightarrow> nat \<Rightarrow> request \<Rightarrow> response + response option" where
  "fulfilling_transport res n rq = Inr res"

definition rejecting_transport :: "response \<Rightarrow> nat \<Rightarrow> request \<Rightarrow> response + response option" where
  "rejecting_transport err n rq = Inl err"

text \<open>A response with the given body, and a target with the given expression.\<close>

definition ok_response :: "body option \<Rightarrow> response" where
  "ok_response b = \<lparr>response.status = Some 200, statusText = Some ''OK'', data = b\<rparr>"

definition labels_body :: "string list \<Rightarrow> body" where
  "labels_body vs = Obj \<lparr>body_obj.message = None, streams = None, values = Some vs\<rparr>"

definition streams_body :: "LogsStream list \<Rightarrow> body" where
  "streams_body ss = Obj \<lparr>body_obj.message = None, streams = Some ss, values = None\<rparr>"

definition target :: "string \<Rightarrow> string option \<Rightarrow> bool option \<Rightarrow> LokiQuery" where
  "target e f h = \<lparr>refId = ''A'', expr = e, format = f, hide = h\<rparr>"

definition example_ds :: LokiDatasource where
  "example_ds = new_LokiDatasource ''http://loki:3100'' 7 (Some 2)"

definition example_options :: "LokiQuery list \<Rightarrow> DataQueryOptions" where
  "example_options tgts =
     \<lparr>targets = tgts, range = \<lparr>from = DateTime (Num 1), to = DateTime (Num (3 / 2))\<rparr>,
      intervalMs = 1000, streaming = None\<rparr>"

definition example_stream :: "string \<Rightarrow> string list \<Rightarrow> LogsStream" where
  "example_stream l tss = \<lparr>labels = l, entries = map (\<lambda>t. \<lparr>ts = t, line = ''line''\<rparr>) tss, search = None\<rparr>"

text \<open>A transport that answers each query request with one stream labelled by the selector asked for.\<close>

definition echo_transport :: "nat \<Rightarrow> request \<Rightarrow> response + response option" where
  "echo_transport n rq =
     Inr (Some (ok_response (Some (streams_body
       [example_stream (case params rq of None \<Rightarrow> [] | Some p \<Rightarrow> query' p) [''1'', ''2'']]))))"

text \<open>Four targets, two of them excluded, with the parameters of the two that remain and the results the echoing transport gives them; and a transport whose second answer is a rejection.\<close>

definition example_targets :: "LokiQuery list" where
  "example_targets =
     [target ''{a} x'' (Some ''time_series'') None, target [] None None,
      target ''{b} y'' None (Some True), target ''{c} z'' (Some ''logs'') None]"

definition example_params :: "query_params list" where
  "example_params =
     [\<lparr>query' = ''{a}'', regexp = ''x'', direction = ''BACKWARD'', limit = 2,
       start = Num 1000000, end' = Num 1500000\<rparr>,
      \<lparr>query' = ''{c}'', regexp = ''z'', direction = ''BACKWARD'', limit = 2,
       start = Num 1000000, end' = Num 1500000\<rparr>]"

definition example_results :: "response list" where
  "example_results =
     [ok_response (Some (streams_body [example_stream ''{a}'' [''1'', ''2'']])),
      ok_response (Some (streams_body [example_stream ''{c}'' [''1'', ''2'']]))]"

definition server_error :: "body option \<Rightarrow> response" where
  "server_error b = \<lparr>response.status = Some 500, statusText = Some ''Internal Error'', data = b\<rparr>"

text \<open>
  A date-math parser that tells the two bounds apart, a reading of timestamps
  written as decimal numbers, and a datasource configured with a negative cap.
\<close>

definition example_parse :: "string \<Rightarrow> bool \<Rightarrow> number option" where
  "example_parse s up = (if up then Some (Num (1 / 1024)) else Some (Num 1))"

definition decimal_time :: "string \<Rightarrow> rat" where
  "decimal_time s = of_nat (foldl (\<lambda>n c. 10 * n + (of_char c - 48)) 0 s)"

definition negative_cap_ds :: LokiDatasource where
  "negative_cap_ds = new_LokiDatasource ''http://loki:3100'' 7 (Some (- 5))"

definition failing_transport :: "nat \<Rightarrow> request \<Rightarrow> response + response option" where
  "failing_transport n rq = (if n = 1 then Inl (server_error None) else echo_transport n rq)"

section \<open>The health check\<close>

lemma sublist_mid: "sublist xs (ps @ xs @ ss)"
  by (auto simp: sublist_def)

lemma number_to_string_500: "number_to_string 500 = ''500''"
  by (simp add: number_to_string_def)

text \<open>
  C1 (as the code has it). When the label request is fulfilled and the list of
  label values is empty, \<^verbatim>\<open>testDatasource\<close> returns the status \<^verbatim>\<open>error\<close>, the status of
  a failure, with the message that the data source is connected but no labels were
  received.
\<close>

theorem testDatasource_no_labels:
  assumes "datasourceRequest E 0 \<lparr>apiUrl = ''/api/prom/label'', params = None\<rparr> = Inr (Some r)"
    and "data r = Some (Obj b)"
    and "values b = Some []"
  shows "testDatasource E =
           \<lparr>status = ''error'',
            message = ''Data source connected, but no labels received. Verify that Loki and Promtail is configured properly.''\<rparr>"
  using assms by (simp add: testDatasource_def request'_def truthy_body_def body_values_def)

theorem testDatasource_no_labels_witness:
  "testDatasource (example_env (fulfilling_transport (Some (ok_response (Some (labels_body [])))))) =
     \<lparr>status = ''error'',
      message = ''Data source connected, but no labels received. Verify that Loki and Promtail is configured properly.''\<rparr>"
  using testDatasource_no_labels
    [of "example_env (fulfilling_transport (Some (ok_response (Some (labels_body [])))))"
        "ok_response (Some (labels_body []))"
        "\<lparr>body_obj.message = None, streams = None, values = Some []\<rparr>"]
  by (simp add: example_env_def fulfilling_transport_def ok_response_def labels_body_def)

text \<open>
  C1 (as stated) fails: on an empty list of label values the status is not distinct
  from the error status. It is \<^verbatim>\<open>error\<close>, the status a rejected request gives.
\<close>

theorem testDatasource_no_labels_status_counterexample:
  "health.status (testDatasource (example_env (fulfilling_transport (Some (ok_response (Some (labels_body []))))))) = ''error'' \<and>
   health.status (testDatasource (example_env (fulfilling_transport (Some (ok_response (Some (labels_body []))))))) =
   health.status (testDatasource (example_env (rejecting_transport (server_error None))))"
  by (simp add: testDatasource_def request'_def example_env_def fulfilling_transport_def
      rejecting_transport_def ok_response_def labels_body_def truthy_body_def body_values_def
      Let_def)

text \<open>
  C9. When the label request is rejected, \<^verbatim>\<open>testDatasource\<close> returns the status
  \<^verbatim>\<open>error\<close>, and its message is \<^verbatim>\<open>Loki: \<close> followed by the status text (or a fixed
  text when there is none), then the numeric status when it is there and not zero,
  then the message of the error body, or the body itself when it has no message,
  each introduced by a full stop and a blank. A rejection with status 500 and
  status text \<^verbatim>\<open>Internal Error\<close> gives a message containing both.
\<close>

theorem testDatasource_transport_failure:
  assumes "datasourceRequest E 0 \<lparr>apiUrl = ''/api/prom/label'', params = None\<rparr> = Inl err"
  shows "health.status (testDatasource E) = ''error'' \<and>
     message (testDatasource E) =
       ''Loki: '' @
       (case statusText err of None \<Rightarrow> ''Cannot connect to Loki''
        | Some t \<Rightarrow> if t = [] then ''Cannot connect to Loki'' else t) @
       (case response.status err of None \<Rightarrow> []
        | Some k \<Rightarrow> if k = 0 then [] else ''. '' @ number_to_string k) @
       (case data err of None \<Rightarrow> []
        | Some (Text t) \<Rightarrow> if t = [] then [] else ''. '' @ t
        | Some (Obj b) \<Rightarrow>
            (case body_obj.message b of None \<Rightarrow> ''. [object Object]''
             | Some m \<Rightarrow> if m = [] then ''. [object Object]'' else ''. '' @ m)) \<and>
     (statusText err = Some ''Internal Error'' \<and> response.status err = Some 500 \<longrightarrow>
        sublist ''Internal Error'' (message (testDatasource E)) \<and>
        sublist ''500'' (message (testDatasource E)))"
proof -
  have st: "health.status (testDatasource E) = ''error''"
    using assms by (simp add: testDatasource_def request'_def Let_def)
  have msg: "message (testDatasource E) =
       ''Loki: '' @
       (case statusText err of None \<Rightarrow> ''Cannot connect to Loki''
        | Some t \<Rightarrow> if t = [] then ''Cannot connect to Loki'' else t) @
       (case response.status err of None \<Rightarrow> []
        | Some k \<Rightarrow> if k = 0 then [] else ''. '' @ number_to_string k) @
       (case data err of None \<Rightarrow> []
        | Some (Text t) \<Rightarrow> if t = [] then [] else ''. '' @ t
        | Some (Obj b) \<Rightarrow>
            (case body_obj.message b of None \<Rightarrow> ''. [object Object]''
             | Some m \<Rightarrow> if m = [] then ''. [object Object]'' else ''. '' @ m))"
    using assms
    by (simp add: testDatasource_def request'_def Let_def truthy_string_def truthy_number_def
        truthy_body_def body_message_def body_to_string_def
        split: option.splits body.splits)
  have part: "sublist ''Internal Error'' (message (testDatasource E)) \<and>
        sublist ''500'' (message (testDatasource E))"
    if h: "statusText err = Some ''Internal Error''" "response.status err = Some 500"
  proof -
    obtain rest where
      m: "message (testDatasource E) = ''Loki: '' @ ''Internal Error'' @ ''. '' @ ''500'' @ rest"
      using msg h number_to_string_500 by simp
    have "sublist ''Internal Error'' (''Loki: '' @ ''Internal Error'' @ (''. '' @ ''500'' @ rest))"
      by (rule sublist_mid)
    moreover have "sublist ''500'' ((''Loki: '' @ ''Internal Error'' @ ''. '') @ ''500'' @ rest)"
      by (rule sublist_mid)
    ultimately show ?thesis using m by simp
  qed
  show ?thesis using st msg part by blast
qed

theorem testDatasource_transport_failure_witness:
  "message (testDatasource (example_env (rejecting_transport (server_error (Some (Text ''boom'')))))) =
     ''Loki: Internal Error. 500. boom'' \<and>
   sublist ''Internal Error''
     (message (testDatasource (example_env (rejecting_transport (server_error (Some (Text ''boom''))))))) \<and>
   sublist ''500''
     (message (testDatasource (example_env (rejecting_transport (server_error (Some (Text ''boom'')))))))"
proof -
  let ?err = "server_error (Some (Text ''boom''))"
  let ?E = "example_env (rejecting_transport ?err)"
  have h: "datasourceRequest ?E 0 \<lparr>apiUrl = ''/api/prom/label'', params = None\<rparr> = Inl ?err"
    by (simp add: example_env_def rejecting_transport_def)
  note t = testDatasource_transport_failure [OF h]
  from t have m: "message (testDatasource ?E) = ''Loki: Internal Error. 500. boom''"
    by (simp add: number_to_string_500 server_error_def)
  have st: "statusText ?err = Some ''Internal Error'' \<and> response.status ?err = Some 500"
    by (simp add: server_error_def)
  from t st have c: "sublist ''Internal Error'' (message (testDatasource ?E)) \<and>
      sublist ''500'' (message (testDatasource ?E))"
    by blast
  from m c show ?thesis by blast
qed

section \<open>Doubles that are exact\<close>

lemma round_half_even_int: "round_half_even (of_int m) = m"
  by (simp add: round_half_even_def Let_def)

lemma floor_log2_int:
  assumes "0 < m"
  shows "floor_log2 (of_int m) = bitlen m - 1"
proof -
  have q: "quotient_of (of_int m) = (m, 1)" by (rule quotient_of_rat_of_int)
  have b1: "bitlen 1 = 1" by (simp add: bitlen_alt_def)
  have bl: "1 \<le> bitlen m" using assms by (simp add: bitlen_ge_iff_power)
  have "(2::int) ^ nat (bitlen m - 1) \<le> m" using bitlen_bounds [OF assms] by simp
  then have "(of_int ((2::int) ^ nat (bitlen m - 1)) :: rat) \<le> of_int m"
    by (simp only: of_int_le_iff)
  then have "pow2 (bitlen m - 1) \<le> of_int m" using bl by (simp add: pow2_def)
  then show ?thesis by (simp add: floor_log2_def q b1 Let_def)
qed

lemma round_double_pos_int:
  assumes "0 < m" and "m < 2 ^ 53"
  shows "round_double (of_int m) = Num (of_int m)"
proof -
  let ?e = "bitlen m - 1"
  have bl: "1 \<le> bitlen m" using assms by (simp add: bitlen_ge_iff_power)
  have bu: "bitlen m \<le> 53" using assms by (simp add: bitlen_le_iff_power)
  have e: "max (floor_log2 (of_int m)) (- 1022) = ?e"
    using assms bl by (simp add: floor_log2_int)
  let ?k = "nat (52 - ?e)"
  have quantum: "pow2 (?e - 52) = 1 / 2 ^ ?k"
  proof (cases "?e = 52")
    case True
    then show ?thesis by (simp add: pow2_def)
  next
    case False
    then have "?e - 52 < 0" using bu by simp
    moreover have "nat (- (?e - 52)) = ?k" by simp
    ultimately show ?thesis by (simp add: pow2_def)
  qed
  have div: "(of_int m :: rat) / pow2 (?e - 52) = of_int (m * 2 ^ ?k)"
    unfolding quantum by simp
  have r: "of_int (round_half_even (of_int m / pow2 (?e - 52))) * pow2 (?e - 52) = (of_int m :: rat)"
    unfolding div round_half_even_int unfolding quantum by simp
  have "(of_int m :: rat) < of_int (2 ^ 53)" using assms by (simp only: of_int_less_iff)
  also have "\<dots> \<le> pow2 1024" by (simp add: pow2_def)
  finally have small: "\<not> pow2 1024 \<le> (of_int m :: rat)" by simp
  have nz: "(of_int m :: rat) \<noteq> 0" "0 < (of_int m :: rat)" "\<bar>of_int m :: rat\<bar> = of_int m"
    using assms by simp_all
  show ?thesis
    unfolding round_double_def Let_def nz(3) e r
    using nz small by simp
qed

lemma round_double_neg: "round_double (- q) = (case round_double q of Num r \<Rightarrow> Num (- r)
    | PosInfinity \<Rightarrow> NegInfinity | NegInfinity \<Rightarrow> PosInfinity | NaN \<Rightarrow> NaN)"
  by (cases "q = 0"; cases "0 < q") (auto simp: round_double_def Let_def)

lemma round_double_int:
  assumes "\<bar>n\<bar> < 2 ^ 53"
  shows "round_double (of_int n) = Num (of_int n)"
proof (cases "n = 0")
  case True
  then show ?thesis by (simp add: round_double_def)
next
  case False
  show ?thesis
  proof (cases "0 < n")
    case True
    then show ?thesis using assms round_double_pos_int by simp
  next
    case neg: False
    then have "0 < - n" "- n < 2 ^ 53" using False assms by simp_all
    then have "round_double (of_int (- n)) = Num (of_int (- n))" by (rule round_double_pos_int)
    then have "round_double (- of_int n) = Num (- of_int n)" by simp
    then show ?thesis using round_double_neg [of "- of_int n"] by simp
  qed
qed

lemma js_times_exact:
  assumes "x * y = of_int n" and "\<bar>n\<bar> < 2 ^ 53"
  shows "js_times (Num x) (Num y) = Num (of_int n)"
  using assms round_double_int [of n] by (simp add: js_times_def)

lemma getTime_example_bounds:
  "getTime E (DateTime (Num 1)) r = Inr (Num 1000000)"
  "getTime E (DateTime (Num (3 / 2))) r = Inr (Num 1500000)"
proof -
  have "js_times (Num 1) (Num 1000000) = Num (of_int 1000000)"
    by (rule js_times_exact) simp_all
  then show "getTime E (DateTime (Num 1)) r = Inr (Num 1000000)"
    by (simp add: getTime_def Math_ceil_def)
  have "js_times (Num (3 / 2)) (Num 1000000) = Num (of_int 1500000)"
    by (rule js_times_exact) simp_all
  then show "getTime E (DateTime (Num (3 / 2))) r = Inr (Num 1500000)"
    by (simp add: getTime_def Math_ceil_def)
qed

section \<open>The batch path\<close>

declare query_loop.simps [simp del]

lemma query_loop_fulfilled:
  assumes "\<forall>j<length results. results ! j \<noteq> None" and "length results \<le> length qts"
  shows "query_loop i results qts acc =
     Inr (acc @ concat (map (\<lambda>j. map (\<lambda>s. s\<lparr>search := Some (regexp (qts ! j))\<rparr>)
                                 (result_streams (the (results ! j)))) [i..<length results]))"
  using assms
proof (induction i results qts acc rule: query_loop.induct)
  case (1 i results qts acc)
  show ?case
  proof (cases "i < length results")
    case False
    then show ?thesis by (subst query_loop.simps) simp
  next
    case True
    then obtain r where r: "results ! i = Some r" using "1.prems" by auto
    have up: "[i..<length results] = i # [Suc i..<length results]"
      using True by (simp add: upt_conv_Cons)
    have iq: "i < length qts" using True "1.prems" by simp
    show ?thesis
    proof (cases "truthy_body (data r)")
      case False
      have "query_loop i results qts acc = query_loop (i + 1) results qts acc"
        using True r False by (subst query_loop.simps) simp
      also have "\<dots> = Inr (acc @ concat (map (\<lambda>j. map (\<lambda>s. s\<lparr>search := Some (regexp (qts ! j))\<rparr>)
                                 (result_streams (the (results ! j)))) [i + 1..<length results]))"
        using "1.IH"(3) [OF True r False] "1.prems" by simp
      finally show ?thesis using up r False by (simp add: result_streams_def)
    next
      case tb: True
      show ?thesis
      proof (cases "case body_streams (data r) of None \<Rightarrow> [] | Some ss \<Rightarrow> ss")
        case Nil
        have "query_loop i results qts acc = query_loop (i + 1) results qts acc"
          using True r tb Nil by (subst query_loop.simps) simp
        also have "\<dots> = Inr (acc @ concat (map (\<lambda>j. map (\<lambda>s. s\<lparr>search := Some (regexp (qts ! j))\<rparr>)
                                 (result_streams (the (results ! j)))) [i + 1..<length results]))"
          using "1.IH"(1) [OF True r tb Nil] "1.prems" by simp
        finally show ?thesis using up r tb Nil by (simp add: result_streams_def)
      next
        case (Cons s ss)
        have "query_loop i results qts acc = query_loop (i + 1) results qts
                 (acc @ map (\<lambda>stream. stream\<lparr>search := Some (regexp (qts ! i))\<rparr>) (s # ss))"
          using True r tb Cons iq by (subst query_loop.simps) simp
        also have "\<dots> = Inr ((acc @ map (\<lambda>stream. stream\<lparr>search := Some (regexp (qts ! i))\<rparr>) (s # ss)) @
                concat (map (\<lambda>j. map (\<lambda>s. s\<lparr>search := Some (regexp (qts ! j))\<rparr>)
                                 (result_streams (the (results ! j)))) [i + 1..<length results]))"
          using "1.IH"(2) [OF True r tb Cons iq] "1.prems" by simp
        finally show ?thesis using up r tb Cons by (simp add: result_streams_def)
      qed
    qed
  qed
qed

lemma promise_all_fulfilled: "promise_all (map Inr vs) = Inr vs"
  by (induction vs) auto

lemma promise_all_rejected:
  "Inl r \<in> set ps \<Longrightarrow> \<exists>r'. Inl r' \<in> set ps \<and> promise_all ps = Inl (Rejection r')"
  by (induction ps) (auto split: sum.splits)

lemma map_throwing_Inr:
  "map_throwing f xs = Inr ys \<Longrightarrow> length ys = length xs \<and> (\<forall>n<length xs. f (xs ! n) = Inr (ys ! n))"
proof (induction xs arbitrary: ys)
  case Nil
  then show ?case by simp
next
  case (Cons x xs)
  then show ?case
    by (auto split: sum.splits simp: nth_Cons split: nat.splits)
qed

lemma map_enumerate_nth:
  "map (\<lambda>(n, x). f n x) (enumerate k xs) = map (\<lambda>n. f (k + n) (xs ! n)) [0..<length xs]"
  by (rule nth_equalityI) (auto simp: nth_enumerate_eq)

lemma prepareQueryTarget_fields:
  "prepareQueryTarget E ds t options = Inr p \<Longrightarrow>
     regexp p = regexp (parseQuery E (replace E (expr t))) \<and>
     query' p = query' (parseQuery E (replace E (expr t))) \<and>
     limit p = maxLines ds \<and> direction p = ''BACKWARD''"
  by (auto simp: prepareQueryTarget_def Let_def split: sum.splits if_splits)

lemma query_prepared:
  assumes prep: "map_throwing (\<lambda>t. prepareQueryTarget E ds t options)
             (filter (\<lambda>t. expr t \<noteq> [] \<and> \<not> truthy_bool (hide t)) (targets options)) = Inr qts"
    and ne: "qts \<noteq> []"
  shows "query E ds options =
     (case promise_all (map (\<lambda>n. datasourceRequest E n \<lparr>apiUrl = ''/api/prom/query'', params = Some (qts ! n)\<rparr>)
                          [0..<length qts]) of
        Inl e \<Rightarrow> Inl e
      | Inr results \<Rightarrow> query_then E ds options qts results,
      map (\<lambda>p. \<lparr>apiUrl = ''/api/prom/query'', params = Some p\<rparr>) qts)"
proof -
  have "map (\<lambda>(n, target). request' E n ''/api/prom/query'' (Some target)) (enumerate 0 qts) =
        map (\<lambda>n. datasourceRequest E n \<lparr>apiUrl = ''/api/prom/query'', params = Some (qts ! n)\<rparr>) [0..<length qts]"
    by (simp add: map_enumerate_nth request'_def)
  then show ?thesis using prep ne by (simp add: query_def Let_def)
qed

lemma query_fulfilled:
  assumes prep: "map_throwing (\<lambda>t. prepareQueryTarget E ds t options)
             (filter (\<lambda>t. expr t \<noteq> [] \<and> \<not> truthy_bool (hide t)) (targets options)) = Inr qts"
    and ne: "qts \<noteq> []"
    and len: "length rs = length qts"
    and ful: "\<forall>n<length qts. datasourceRequest E n \<lparr>apiUrl = ''/api/prom/query'', params = Some (qts ! n)\<rparr> = Inr (Some (rs ! n))"
  shows "fst (query E ds options) = query_then E ds options qts (map Some rs)"
proof -
  have "map (\<lambda>n. datasourceRequest E n \<lparr>apiUrl = ''/api/prom/query'', params = Some (qts ! n)\<rparr>) [0..<length qts]
        = map Inr (map Some rs)"
    using len ful by (intro nth_equalityI) auto
  then have "promise_all (map (\<lambda>n. datasourceRequest E n \<lparr>apiUrl = ''/api/prom/query'', params = Some (qts ! n)\<rparr>) [0..<length qts])
        = Inr (map Some rs)"
    by (simp only: promise_all_fulfilled)
  then show ?thesis
    using query_prepared [OF prep ne] by simp
qed

lemma query_then_fulfilled:
  assumes len: "length rs = length qts" and tne: "targets options \<noteq> []"
  shows "query_then E ds options qts (map Some rs) =
     (let S = concat (map (\<lambda>n. map (\<lambda>s. s\<lparr>search := Some (regexp (qts ! n))\<rparr>) (result_streams (rs ! n)))
                       [0..<length qts])
      in Inr (if format (hd (targets options)) = Some ''time_series''
              then map Inr (makeSeriesForLogs E (rows (mergeStreamsToLogs E S (maxLines ds))) (intervalMs options))
              else map Inl S))"
proof -
  have "query_loop 0 (map Some rs) qts [] =
     Inr ([] @ concat (map (\<lambda>j. map (\<lambda>s. s\<lparr>search := Some (regexp (qts ! j))\<rparr>)
                                 (result_streams (the (map Some rs ! j)))) [0..<length (map Some rs)]))"
    by (rule query_loop_fulfilled) (use len in auto)
  also have "(map (\<lambda>j. map (\<lambda>s. s\<lparr>search := Some (regexp (qts ! j))\<rparr>)
                                 (result_streams (the (map Some rs ! j)))) [0..<length (map Some rs)])
      = (map (\<lambda>n. map (\<lambda>s. s\<lparr>search := Some (regexp (qts ! n))\<rparr>) (result_streams (rs ! n)))
                       [0..<length qts])"
    using len by (intro nth_equalityI) auto
  finally have loop: "query_loop 0 (map Some rs) qts [] =
     Inr (concat (map (\<lambda>n. map (\<lambda>s. s\<lparr>search := Some (regexp (qts ! n))\<rparr>) (result_streams (rs ! n)))
                       [0..<length qts]))" by simp
  obtain t ts where "targets options = t # ts" using tne by (cases "targets options") auto
  then show ?thesis using loop by (simp add: query_then_def Let_def)
qed

lemma map_throwing_cong_filter_map:
  assumes "\<And>x. f (h x) = g x" and "\<And>x. P (h x) = Q x"
  shows "map_throwing f (filter P (map h xs)) = map_throwing g (filter Q xs)"
  by (induction xs) (simp_all add: assms cong: sum.case_cong)
lemmas example_defs =
  example_env_def example_ds_def new_LokiDatasource_def truthy_number_def example_options_def
  target_def truthy_bool_def stream_rows_def
  prepareQueryTarget_def getTime_example_bounds Let_def echo_transport_def ok_response_def
  streams_body_def
  example_stream_def example_targets_def example_params_def example_results_def

lemma example_prepared:
  "map_throwing (\<lambda>t. prepareQueryTarget (example_env echo_transport) example_ds t (example_options example_targets))
     (filter (\<lambda>t. expr t \<noteq> [] \<and> \<not> truthy_bool (hide t)) (targets (example_options example_targets)))
   = Inr example_params"
  by (simp add: example_defs)

lemma example_fulfilled:
  "\<forall>n<length example_params.
     datasourceRequest (example_env echo_transport) n
       \<lparr>apiUrl = ''/api/prom/query'', params = Some (example_params ! n)\<rparr>
     = Inr (Some (example_results ! n))"
  by (auto simp add: example_defs less_Suc_eq)

text \<open>
  C2. When every request of a batch call with at least one eligible target is
  fulfilled, the data of the response is decided by the format of the first
  target of the options: for \<^verbatim>\<open>time_series\<close> it is the series derived from the merge
  of the combined streams, for any other format the combined streams themselves.
  Changing the formats of the other targets changes nothing of the call. When no
  target is eligible the data is empty, whatever the format.
\<close>

theorem query_shape_by_first_format:
  "(map_throwing (\<lambda>t. prepareQueryTarget E ds t options)
       (filter (\<lambda>t. expr t \<noteq> [] \<and> \<not> truthy_bool (hide t)) (targets options)) = Inr qts \<and>
    qts \<noteq> [] \<and> length rs = length qts \<and>
    (\<forall>n<length qts. datasourceRequest E n \<lparr>apiUrl = ''/api/prom/query'', params = Some (qts ! n)\<rparr>
        = Inr (Some (rs ! n))) \<longrightarrow>
    (\<exists>S. query_loop 0 (map Some rs) qts [] = Inr S \<and>
         fst (query E ds options) =
           Inr (if format (hd (targets options)) = Some ''time_series''
                then map Inr (makeSeriesForLogs E (rows (mergeStreamsToLogs E S (maxLines ds))) (intervalMs options))
                else map Inl S))) \<and>
   query E ds (options\<lparr>targets := t # map (\<lambda>u. u\<lparr>format := g u\<rparr>) us\<rparr>) =
     query E ds (options\<lparr>targets := t # us\<rparr>) \<and>
   (filter (\<lambda>t. expr t \<noteq> [] \<and> \<not> truthy_bool (hide t)) (targets options) = [] \<longrightarrow>
      fst (query E ds options) = Inr [])"
proof (intro conjI impI)
  assume a: "map_throwing (\<lambda>t. prepareQueryTarget E ds t options)
       (filter (\<lambda>t. expr t \<noteq> [] \<and> \<not> truthy_bool (hide t)) (targets options)) = Inr qts \<and>
    qts \<noteq> [] \<and> length rs = length qts \<and>
    (\<forall>n<length qts. datasourceRequest E n \<lparr>apiUrl = ''/api/prom/query'', params = Some (qts ! n)\<rparr>
        = Inr (Some (rs ! n)))"
  then have prep: "map_throwing (\<lambda>t. prepareQueryTarget E ds t options)
       (filter (\<lambda>t. expr t \<noteq> [] \<and> \<not> truthy_bool (hide t)) (targets options)) = Inr qts"
    and ne: "qts \<noteq> []" and len: "length rs = length qts"
    and ful: "\<forall>n<length qts. datasourceRequest E n \<lparr>apiUrl = ''/api/prom/query'', params = Some (qts ! n)\<rparr>
        = Inr (Some (rs ! n))"
    by auto
  have "\<forall>j<length (map Some rs). map Some rs ! j \<noteq> None" by simp
  moreover have "length (map Some rs) \<le> length qts" using len by simp
  ultimately obtain S where S: "query_loop 0 (map Some rs) qts [] = Inr S"
    using query_loop_fulfilled by blast
  have tne: "targets options \<noteq> []" using prep ne by auto
  then obtain t' ts' where "targets options = t' # ts'" by (cases "targets options") auto
  then have "query_then E ds options qts (map Some rs) =
      Inr (if format (hd (targets options)) = Some ''time_series''
                then map Inr (makeSeriesForLogs E (rows (mergeStreamsToLogs E S (maxLines ds))) (intervalMs options))
                else map Inl S)"
    using S by (simp add: query_then_def Let_def)
  then show "\<exists>S. query_loop 0 (map Some rs) qts [] = Inr S \<and>
         fst (query E ds options) =
           Inr (if format (hd (targets options)) = Some ''time_series''
                then map Inr (makeSeriesForLogs E (rows (mergeStreamsToLogs E S (maxLines ds))) (intervalMs options))
                else map Inl S)"
    using S query_fulfilled [OF prep ne len ful] by auto
next
  let ?o1 = "options\<lparr>targets := t # map (\<lambda>u. u\<lparr>format := g u\<rparr>) us\<rparr>"
  let ?o2 = "options\<lparr>targets := t # us\<rparr>"
  let ?P = "\<lambda>t. expr t \<noteq> [] \<and> \<not> truthy_bool (hide t)"
  have f1: "(\<lambda>x. prepareQueryTarget E ds x ?o1) = (\<lambda>x. prepareQueryTarget E ds x ?o2)"
    by (rule ext) (simp add: prepareQueryTarget_def Let_def cong: sum.case_cong)
  have fmt: "prepareQueryTarget E ds (u\<lparr>format := f\<rparr>) ?o2 = prepareQueryTarget E ds u ?o2" for u f
    by (simp add: prepareQueryTarget_def Let_def cong: sum.case_cong)
  have tail: "map_throwing (\<lambda>x. prepareQueryTarget E ds x ?o2) (filter ?P (map (\<lambda>u. u\<lparr>format := g u\<rparr>) us))
      = map_throwing (\<lambda>x. prepareQueryTarget E ds x ?o2) (filter ?P us)"
    by (rule map_throwing_cong_filter_map) (simp_all add: fmt)
  have mt: "map_throwing (\<lambda>x. prepareQueryTarget E ds x ?o1) (filter ?P (targets ?o1))
      = map_throwing (\<lambda>x. prepareQueryTarget E ds x ?o2) (filter ?P (targets ?o2))"
    unfolding f1 using tail by (simp cong: sum.case_cong)
  have qt: "query_then E ds ?o1 qts rs = query_then E ds ?o2 qts rs" for qts rs
    by (simp add: query_then_def Let_def split: sum.splits)
  show "query E ds ?o1 = query E ds ?o2"
    unfolding query_def mt qt ..
next
  assume "filter (\<lambda>t. expr t \<noteq> [] \<and> \<not> truthy_bool (hide t)) (targets options) = []"
  then show "fst (query E ds options) = Inr []" by (simp add: query_def)
qed

theorem query_shape_by_first_format_witness:
  "fst (query (example_env echo_transport) example_ds (example_options example_targets)) = Inr [Inr 2] \<and>
   fst (query (example_env echo_transport) example_ds
          (example_options [target [] (Some ''time_series'') None])) = Inr []"
proof -
  let ?E = "example_env echo_transport"
  let ?o = "example_options example_targets"
  let ?n = "example_options [target [] (Some ''time_series'') None]"
  have len: "length example_results = length example_params"
    by (simp add: example_results_def example_params_def)
  have ne: "example_params \<noteq> []" by (simp add: example_params_def)
  from query_shape_by_first_format
    [where E = ?E and ds = example_ds and options = ?o and qts = example_params
       and rs = example_results and t = "target [] None None" and us = "[]" and g = format]
  have "\<exists>S. query_loop 0 (map Some example_results) example_params [] = Inr S \<and>
         fst (query ?E example_ds ?o) =
           Inr (if format (hd (targets ?o)) = Some ''time_series''
                then map Inr (makeSeriesForLogs ?E (rows (mergeStreamsToLogs ?E S (maxLines example_ds))) (intervalMs ?o))
                else map Inl S)"
    using example_prepared example_fulfilled len ne by blast
  then obtain S where S: "query_loop 0 (map Some example_results) example_params [] = Inr S"
    and q: "fst (query ?E example_ds ?o) =
           Inr (if format (hd (targets ?o)) = Some ''time_series''
                then map Inr (makeSeriesForLogs ?E (rows (mergeStreamsToLogs ?E S (maxLines example_ds))) (intervalMs ?o))
                else map Inl S)" by blast
  have "query_loop 0 (map Some example_results) example_params [] =
     Inr [(example_stream ''{a}'' [''1'', ''2''])\<lparr>search := Some ''x''\<rparr>,
          (example_stream ''{c}'' [''1'', ''2''])\<lparr>search := Some ''z''\<rparr>]"
    by (simp add: query_loop.simps example_defs truthy_body_def body_streams_def)
  with S have "S = [(example_stream ''{a}'' [''1'', ''2''])\<lparr>search := Some ''x''\<rparr>,
          (example_stream ''{c}'' [''1'', ''2''])\<lparr>search := Some ''z''\<rparr>]" by simp
  with q have 1: "fst (query ?E example_ds ?o) = Inr [Inr 2]"
    by (simp add: example_defs)
  have "filter (\<lambda>t. expr t \<noteq> [] \<and> \<not> truthy_bool (hide t)) (targets ?n) = []"
    by (simp add: example_defs)
  with query_shape_by_first_format
    [where E = ?E and ds = example_ds and options = ?n and qts = "[]"
       and rs = "[]" and t = "target [] None None" and us = "[]" and g = format]
  have 2: "fst (query ?E example_ds ?n) = Inr []" by blast
  from 1 2 show ?thesis by blast
qed

text \<open>
  C3. Every request \<^verbatim>\<open>query\<close> hands to the transport carries the parameters of a
  target whose expression is not empty and whose hide flag is not set, and the
  sources \<^verbatim>\<open>stream\<close> combines are those of exactly these targets. When every target
  is excluded, \<^verbatim>\<open>query\<close> resolves with empty data and \<^verbatim>\<open>stream\<close> returns the empty
  observable, and neither sends anything.
\<close>

theorem excluded_targets_never_sent:
  "(\<forall>rq \<in> set (snd (query E ds options)).
      \<exists>t \<in> set (targets options). expr t \<noteq> [] \<and> \<not> truthy_bool (hide t) \<and>
        (\<exists>p. prepareQueryTarget E ds t options = Inr p \<and> rq = \<lparr>apiUrl = ''/api/prom/query'', params = Some p\<rparr>)) \<and>
   (\<forall>srcs. fst (stream E ds options) = CombineLatest srcs \<longrightarrow>
      srcs = map (\<lambda>t. (''/api/prom/tail'', prepareStreamQueryTarget E t options))
               (filter (\<lambda>t. expr t \<noteq> [] \<and> \<not> truthy_bool (hide t)) (targets options))) \<and>
   ((\<forall>t \<in> set (targets options). expr t = [] \<or> truthy_bool (hide t)) \<longrightarrow>
      query E ds options = (Inr [], []) \<and> stream E ds options = (EmptyObservable, []))"
proof (intro conjI)
  let ?P = "\<lambda>t. expr t \<noteq> [] \<and> \<not> truthy_bool (hide t)"
  show "\<forall>rq \<in> set (snd (query E ds options)).
      \<exists>t \<in> set (targets options). expr t \<noteq> [] \<and> \<not> truthy_bool (hide t) \<and>
        (\<exists>p. prepareQueryTarget E ds t options = Inr p \<and> rq = \<lparr>apiUrl = ''/api/prom/query'', params = Some p\<rparr>)"
  proof (cases "map_throwing (\<lambda>t. prepareQueryTarget E ds t options) (filter ?P (targets options))")
    case (Inl e)
    then show ?thesis by (simp add: query_def)
  next
    case (Inr qts)
    show ?thesis
    proof (cases "qts = []")
      case True
      then show ?thesis using Inr by (simp add: query_def)
    next
      case False
      have reqs: "snd (query E ds options) = map (\<lambda>p. \<lparr>apiUrl = ''/api/prom/query'', params = Some p\<rparr>) qts"
        using query_prepared [OF Inr False] by simp
      from map_throwing_Inr [OF Inr]
      have l: "length qts = length (filter ?P (targets options))"
        and p: "\<forall>n<length (filter ?P (targets options)).
                  prepareQueryTarget E ds (filter ?P (targets options) ! n) options = Inr (qts ! n)"
        by auto
      show ?thesis
      proof
        fix rq assume "rq \<in> set (snd (query E ds options))"
        then obtain n where n: "n < length qts" "rq = \<lparr>apiUrl = ''/api/prom/query'', params = Some (qts ! n)\<rparr>"
          using reqs by (auto simp: in_set_conv_nth)
        let ?t = "filter ?P (targets options) ! n"
        have "n < length (filter ?P (targets options))" using n l by simp
        then have "?t \<in> set (filter ?P (targets options))" by (rule nth_mem)
        then have "?t \<in> set (targets options)" "?P ?t" by auto
        moreover have "prepareQueryTarget E ds ?t options = Inr (qts ! n)" using p n l by simp
        ultimately show "\<exists>t \<in> set (targets options). expr t \<noteq> [] \<and> \<not> truthy_bool (hide t) \<and>
          (\<exists>p. prepareQueryTarget E ds t options = Inr p \<and> rq = \<lparr>apiUrl = ''/api/prom/query'', params = Some p\<rparr>)"
          using n by blast
      qed
    qed
  qed
next
  show "\<forall>srcs. fst (stream E ds options) = CombineLatest srcs \<longrightarrow>
      srcs = map (\<lambda>t. (''/api/prom/tail'', prepareStreamQueryTarget E t options))
               (filter (\<lambda>t. expr t \<noteq> [] \<and> \<not> truthy_bool (hide t)) (targets options))"
    by (auto simp: stream_def Let_def comp_def split: if_splits)
next
  show "(\<forall>t \<in> set (targets options). expr t = [] \<or> truthy_bool (hide t)) \<longrightarrow>
      query E ds options = (Inr [], []) \<and> stream E ds options = (EmptyObservable, [])"
  proof
    assume a: "\<forall>t \<in> set (targets options). expr t = [] \<or> truthy_bool (hide t)"
    have "filter (\<lambda>t. expr t \<noteq> [] \<and> \<not> truthy_bool (hide t)) (targets options) = []"
      using a by (auto simp: filter_empty_conv)
    then show "query E ds options = (Inr [], []) \<and> stream E ds options = (EmptyObservable, [])"
      by (simp add: query_def stream_def)
  qed
qed

theorem excluded_targets_never_sent_witness:
  "query (example_env echo_transport) example_ds
       (example_options [target [] None None, target ''{b} y'' None (Some True)]) = (Inr [], []) \<and>
   stream (example_env echo_transport) example_ds
       (example_options [target [] None None, target ''{b} y'' None (Some True)]) = (EmptyObservable, []) \<and>
   (\<exists>t p. t \<in> set example_targets \<and> expr t \<noteq> [] \<and> \<not> truthy_bool (hide t) \<and>
      prepareQueryTarget (example_env echo_transport) example_ds t (example_options example_targets) = Inr p \<and>
      hd (snd (query (example_env echo_transport) example_ds (example_options example_targets))) =
        \<lparr>apiUrl = ''/api/prom/query'', params = Some p\<rparr>)"
proof -
  let ?E = "example_env echo_transport"
  let ?x = "example_options [target [] None None, target ''{b} y'' None (Some True)]"
  let ?o = "example_options example_targets"
  have "\<forall>t \<in> set (targets ?x). expr t = [] \<or> truthy_bool (hide t)"
    by (simp add: example_defs)
  with excluded_targets_never_sent [of ?E example_ds ?x]
  have 1: "query ?E example_ds ?x = (Inr [], []) \<and> stream ?E example_ds ?x = (EmptyObservable, [])"
    by blast
  have "snd (query ?E example_ds ?o) \<noteq> []"
    by (simp add: query_def example_defs)
  then have "hd (snd (query ?E example_ds ?o)) \<in> set (snd (query ?E example_ds ?o))"
    by (rule hd_in_set)
  with excluded_targets_never_sent [of ?E example_ds ?o]
  have "\<exists>t \<in> set (targets ?o). expr t \<noteq> [] \<and> \<not> truthy_bool (hide t) \<and>
        (\<exists>p. prepareQueryTarget ?E example_ds t ?o = Inr p \<and>
           hd (snd (query ?E example_ds ?o)) = \<lparr>apiUrl = ''/api/prom/query'', params = Some p\<rparr>)"
    by blast
  moreover have "targets ?o = example_targets" by (simp add: example_options_def)
  ultimately have 2: "\<exists>t p. t \<in> set example_targets \<and> expr t \<noteq> [] \<and> \<not> truthy_bool (hide t) \<and>
      prepareQueryTarget ?E example_ds t ?o = Inr p \<and>
      hd (snd (query ?E example_ds ?o)) = \<lparr>apiUrl = ''/api/prom/query'', params = Some p\<rparr>"
    by (simp only: ) blast
  from 1 2 show ?thesis by blast
qed

text \<open>
  C4. When one of the requests of a batch call is rejected, the call is rejected,
  with the reason of a rejected request: no data is returned.
\<close>

theorem query_rejects_when_a_request_fails:
  assumes n: "n < length (snd (query E ds options))"
    and rej: "datasourceRequest E n (snd (query E ds options) ! n) = Inl r"
  shows "\<exists>m r'. m < length (snd (query E ds options)) \<and>
           datasourceRequest E m (snd (query E ds options) ! m) = Inl r' \<and>
           fst (query E ds options) = Inl (Rejection r')"
proof (cases "map_throwing (\<lambda>t. prepareQueryTarget E ds t options)
             (filter (\<lambda>t. expr t \<noteq> [] \<and> \<not> truthy_bool (hide t)) (targets options))")
  case (Inl e)
  then have "snd (query E ds options) = []" by (simp add: query_def)
  with n show ?thesis by simp
next
  case (Inr qts)
  show ?thesis
  proof (cases "qts = []")
    case True
    then have "snd (query E ds options) = []" using Inr by (simp add: query_def)
    with n show ?thesis by simp
  next
    case False
    let ?ps = "map (\<lambda>n. datasourceRequest E n \<lparr>apiUrl = ''/api/prom/query'', params = Some (qts ! n)\<rparr>)
                 [0..<length qts]"
    note q = query_prepared [OF Inr False]
    have reqs: "snd (query E ds options) = map (\<lambda>p. \<lparr>apiUrl = ''/api/prom/query'', params = Some p\<rparr>) qts"
      using q by simp
    have nq: "n < length qts" using n reqs by simp
    have lps: "length ?ps = length qts" by simp
    have "?ps ! n = Inl r" using rej reqs nq by simp
    moreover have "?ps ! n \<in> set ?ps" using nq lps by (simp only: nth_mem)
    ultimately have "Inl r \<in> set ?ps" by simp
    from promise_all_rejected [OF this]
    obtain r' where r': "Inl r' \<in> set ?ps" "promise_all ?ps = Inl (Rejection r')" by blast
    from r'(1) obtain m where m0: "m < length ?ps" "?ps ! m = Inl r'"
      by (auto simp only: in_set_conv_nth)
    have m: "m < length qts"
      "datasourceRequest E m \<lparr>apiUrl = ''/api/prom/query'', params = Some (qts ! m)\<rparr> = Inl r'"
      using m0 by simp_all
    have "fst (query E ds options) = Inl (Rejection r')" using q r'(2) by simp
    moreover have "m < length (snd (query E ds options))" using m(1) reqs by simp
    moreover have "datasourceRequest E m (snd (query E ds options) ! m) = Inl r'"
      using m reqs by simp
    ultimately show ?thesis by blast
  qed
qed

theorem query_rejects_when_a_request_fails_witness:
  "\<exists>m r'. m < length (snd (query (example_env failing_transport) example_ds (example_options example_targets))) \<and>
           datasourceRequest (example_env failing_transport) m
             (snd (query (example_env failing_transport) example_ds (example_options example_targets)) ! m) = Inl r' \<and>
           fst (query (example_env failing_transport) example_ds (example_options example_targets)) = Inl (Rejection r')"
proof -
  let ?E = "example_env failing_transport"
  let ?o = "example_options example_targets"
  have reqs: "snd (query ?E example_ds ?o) =
      map (\<lambda>p. \<lparr>apiUrl = ''/api/prom/query'', params = Some p\<rparr>) example_params"
    by (simp add: query_def example_defs)
  have n: "1 < length (snd (query ?E example_ds ?o))"
    by (simp add: reqs example_params_def)
  have r: "datasourceRequest ?E 1 (snd (query ?E example_ds ?o) ! 1) = Inl (server_error None)"
    by (simp add: reqs example_env_def failing_transport_def)
  from query_rejects_when_a_request_fails [OF n r] show ?thesis .
qed

text \<open>
  C8. When every request of a batch call is fulfilled, the combined streams are
  the streams of the first result, then those of the second, and so on, and the
  streams of the \<open>n\<close>-th result carry as search term the regexp parsed from the
  expression of the \<open>n\<close>-th eligible target.
\<close>

theorem query_tags_streams_by_position:
  assumes prep: "map_throwing (\<lambda>t. prepareQueryTarget E ds t options)
             (filter (\<lambda>t. expr t \<noteq> [] \<and> \<not> truthy_bool (hide t)) (targets options)) = Inr qts"
    and ne: "qts \<noteq> []"
    and len: "length rs = length qts"
    and ful: "\<forall>n<length qts. datasourceRequest E n \<lparr>apiUrl = ''/api/prom/query'', params = Some (qts ! n)\<rparr> = Inr (Some (rs ! n))"
  shows "(let active = filter (\<lambda>t. expr t \<noteq> [] \<and> \<not> truthy_bool (hide t)) (targets options);
              S = concat (map (\<lambda>n. map (\<lambda>s. s\<lparr>search := Some (regexp (parseQuery E (replace E (expr (active ! n)))))\<rparr>)
                                     (result_streams (rs ! n)))
                           [0..<length active])
          in fst (query E ds options) =
               Inr (if format (hd (targets options)) = Some ''time_series''
                    then map Inr (makeSeriesForLogs E (rows (mergeStreamsToLogs E S (maxLines ds))) (intervalMs options))
                    else map Inl S))"
proof -
  let ?active = "filter (\<lambda>t. expr t \<noteq> [] \<and> \<not> truthy_bool (hide t)) (targets options)"
  from map_throwing_Inr [OF prep]
  have l: "length qts = length ?active"
    and p: "\<forall>n<length ?active. prepareQueryTarget E ds (?active ! n) options = Inr (qts ! n)"
    by auto
  have re: "regexp (qts ! n) = regexp (parseQuery E (replace E (expr (?active ! n))))"
    if "n < length ?active" for n
    using p that prepareQueryTarget_fields by blast
  have eq: "map (\<lambda>n. map (\<lambda>s. s\<lparr>search := Some (regexp (qts ! n))\<rparr>) (result_streams (rs ! n))) [0..<length qts]
      = map (\<lambda>n. map (\<lambda>s. s\<lparr>search := Some (regexp (parseQuery E (replace E (expr (?active ! n)))))\<rparr>)
                                     (result_streams (rs ! n))) [0..<length ?active]"
    using l re by (intro nth_equalityI) auto
  have tne: "targets options \<noteq> []" using prep ne by auto
  show ?thesis
    using query_fulfilled [OF prep ne len ful] query_then_fulfilled [OF len tne, of E ds] eq
    by (simp add: Let_def)
qed

theorem query_tags_streams_by_position_witness:
  "fst (query (example_env echo_transport) example_ds (example_options (rev example_targets))) =
     Inr [Inl ((example_stream ''{c}'' [''1'', ''2''])\<lparr>search := Some ''z''\<rparr>),
          Inl ((example_stream ''{a}'' [''1'', ''2''])\<lparr>search := Some ''x''\<rparr>)]"
proof -
  let ?E = "example_env echo_transport"
  let ?o = "example_options (rev example_targets)"
  have prep: "map_throwing (\<lambda>t. prepareQueryTarget ?E example_ds t ?o)
     (filter (\<lambda>t. expr t \<noteq> [] \<and> \<not> truthy_bool (hide t)) (targets ?o)) = Inr (rev example_params)"
    by (simp add: example_defs)
  have ne: "rev example_params \<noteq> []" by (simp add: example_params_def)
  have len: "length (rev example_results) = length (rev example_params)"
    by (simp add: example_results_def example_params_def)
  have ful: "\<forall>n<length (rev example_params).
     datasourceRequest ?E n \<lparr>apiUrl = ''/api/prom/query'', params = Some (rev example_params ! n)\<rparr>
     = Inr (Some (rev example_results ! n))"
    by (auto simp add: example_defs less_Suc_eq)
  have up: "[0..<2] = [0, 1]" by (simp add: upt_rec)
  from query_tags_streams_by_position [OF prep ne len ful]
  show ?thesis
    by (simp add: example_defs result_streams_def truthy_body_def body_streams_def up)
qed

section \<open>Time bounds\<close>

text \<open>
  C5 (as the code has it). \<^verbatim>\<open>getTime\<close> turns a finite time value \<open>x\<close>, given as a moment
  or parsed from a string, into the ceiling of the double nearest to \<open>x \<times> 10\<^sup>6\<close>,
  whatever the \<^verbatim>\<open>roundUp\<close> flag; this is \<open>\<lceil>x \<times> 10\<^sup>6\<rceil>\<close> where the product is a whole
  number below \<open>2\<^sup>5\<^sup>3\<close> in magnitude. A batch query whose range runs from \<open>a\<close> to \<open>b\<close>
  is prepared with the start and the end computed in this one way: both bounds
  are rounded up.
\<close>

theorem getTime_ceiling_of_double_product:
  "getTime E (DateTime (Num x)) roundUp = Inr (Math_ceil (round_double (x * 10 ^ 6))) \<and>
   (x * 10 ^ 6 = of_int n \<and> \<bar>n\<bar> < 2 ^ 53 \<longrightarrow>
      getTime E (DateTime (Num x)) roundUp = Inr (Num (of_int \<lceil>x * 10 ^ 6\<rceil>))) \<and>
   (dateMath_parse E s roundUp = Some (Num x) \<longrightarrow>
      getTime E (DateString s) roundUp = Inr (Math_ceil (round_double (x * 10 ^ 6)))) \<and>
   (\<not> truthy_bool (streaming options) \<and> from (range options) = DateTime (Num a) \<and>
    to (range options) = DateTime (Num b) \<longrightarrow>
      (\<exists>p. prepareQueryTarget E ds t options = Inr p \<and>
           start p = Math_ceil (round_double (a * 10 ^ 6)) \<and>
           end' p = Math_ceil (round_double (b * 10 ^ 6))))"
proof (intro conjI impI)
  show "getTime E (DateTime (Num x)) roundUp = Inr (Math_ceil (round_double (x * 10 ^ 6)))"
    by (simp add: getTime_def js_times_def)
  show "getTime E (DateTime (Num x)) roundUp = Inr (Num (of_int \<lceil>x * 10 ^ 6\<rceil>))"
    if h: "x * 10 ^ 6 = of_int n \<and> \<bar>n\<bar> < 2 ^ 53"
  proof -
    from h have "x * 1000000 = of_int n" "\<bar>n\<bar> < 2 ^ 53" by simp_all
    then have "js_times (Num x) (Num 1000000) = Num (of_int n)" by (rule js_times_exact)
    moreover have "\<lceil>x * 10 ^ 6\<rceil> = n" using h by simp
    ultimately show ?thesis by (simp add: getTime_def Math_ceil_def)
  qed
  show "getTime E (DateString s) roundUp = Inr (Math_ceil (round_double (x * 10 ^ 6)))"
    if "dateMath_parse E s roundUp = Some (Num x)"
    using that by (simp add: getTime_def js_times_def)
  show "\<exists>p. prepareQueryTarget E ds t options = Inr p \<and>
           start p = Math_ceil (round_double (a * 10 ^ 6)) \<and>
           end' p = Math_ceil (round_double (b * 10 ^ 6))"
    if "\<not> truthy_bool (streaming options) \<and> from (range options) = DateTime (Num a) \<and>
        to (range options) = DateTime (Num b)"
    using that by (simp add: prepareQueryTarget_def getTime_def js_times_def Let_def)
qed

theorem getTime_ceiling_of_double_product_witness:
  "getTime (example_env echo_transport) (DateTime (Num (3 / 2))) True = Inr (Num 1500000) \<and>
   getTime (example_env echo_transport\<lparr>dateMath_parse := example_parse\<rparr>) (DateString ''now'') True =
     Inr (Num 977) \<and>
   (\<exists>p. prepareQueryTarget (example_env echo_transport) example_ds (target ''{a} x'' None None)
           (example_options []) = Inr p \<and>
        start p = Num 1000000 \<and> end' p = Num 1500000)"
proof -
  let ?E = "example_env echo_transport"
  let ?P = "example_env echo_transport\<lparr>dateMath_parse := example_parse\<rparr>"
  let ?o = "example_options []"
  let ?t = "target ''{a} x'' None None"
  have r1: "Math_ceil (round_double (1 * 10 ^ 6)) = Num 1000000" by code_simp
  have r2: "Math_ceil (round_double (3 / 2 * 10 ^ 6)) = Num 1500000" by code_simp
  have r3: "Math_ceil (round_double (1 / 1024 * 10 ^ 6)) = Num 977" by code_simp
  have i: "(3 / 2 :: rat) * 10 ^ 6 = of_int 1500000 \<and> \<bar>1500000 :: int\<bar> < 2 ^ 53" by simp
  have c: "\<lceil>(3 / 2 :: rat) * 10 ^ 6\<rceil> = 1500000" by simp
  from getTime_ceiling_of_double_product
    [where E = ?E and x = "3 / 2" and roundUp = True and n = 1500000 and s = "''now''"
       and options = ?o and a = 1 and b = "3 / 2" and ds = example_ds and t = ?t] i
  have "getTime ?E (DateTime (Num (3 / 2))) True = Inr (Num (of_int \<lceil>(3 / 2 :: rat) * 10 ^ 6\<rceil>))"
    by blast
  then have 1: "getTime ?E (DateTime (Num (3 / 2))) True = Inr (Num 1500000)"
    unfolding c by simp
  have "dateMath_parse ?P ''now'' True = Some (Num (1 / 1024))"
    by (simp add: example_parse_def)
  with getTime_ceiling_of_double_product
    [where E = ?P and x = "1 / 1024" and roundUp = True and n = 0 and s = "''now''"
       and options = ?o and a = 1 and b = "3 / 2" and ds = example_ds and t = ?t]
  have "getTime ?P (DateString ''now'') True = Inr (Math_ceil (round_double (1 / 1024 * 10 ^ 6)))"
    by blast
  then have 2: "getTime ?P (DateString ''now'') True = Inr (Num 977)"
    unfolding r3 .
  have "\<not> truthy_bool (streaming ?o) \<and> from (range ?o) = DateTime (Num 1) \<and>
        to (range ?o) = DateTime (Num (3 / 2))"
    by (simp add: example_options_def truthy_bool_def)
  with getTime_ceiling_of_double_product
    [where E = ?E and x = "3 / 2" and roundUp = True and n = 1500000 and s = "''now''"
       and options = ?o and a = 1 and b = "3 / 2" and ds = example_ds and t = ?t]
  have "\<exists>p. prepareQueryTarget ?E example_ds ?t ?o = Inr p \<and>
           start p = Math_ceil (round_double (1 * 10 ^ 6)) \<and>
           end' p = Math_ceil (round_double (3 / 2 * 10 ^ 6))"
    by blast
  then have 3: "\<exists>p. prepareQueryTarget ?E example_ds ?t ?o = Inr p \<and>
        start p = Num 1000000 \<and> end' p = Num 1500000"
    unfolding r1 r2 .
  from 1 2 3 show ?thesis by blast
qed

text \<open>
  C5 (as stated) fails: the product is rounded to a double before the ceiling is
  taken. For the moment of 1562000000123 milliseconds the result is not
  \<open>\<lceil>x \<times> 10\<^sup>6\<rceil>\<close> but a number 64 above it, and for the double nearest to one tenth
  the result is 100000 where \<open>\<lceil>x \<times> 10\<^sup>6\<rceil>\<close> is 100001.
\<close>

theorem getTime_exact_ceiling_counterexample:
  "getTime (example_env echo_transport) (DateTime (Num 1562000000123)) False =
     Inr (Num 1562000000123000064) \<and>
   \<lceil>(1562000000123 :: rat) * 10 ^ 6\<rceil> = 1562000000123000000 \<and>
   getTime (example_env echo_transport) (DateTime (Num (3602879701896397 / 2 ^ 55))) False =
     Inr (Num 100000) \<and>
   \<lceil>(3602879701896397 / 2 ^ 55 :: rat) * 10 ^ 6\<rceil> = 100001"
proof -
  have 1: "Math_ceil (round_double (1562000000123 * 1000000)) = Num 1562000000123000064"
    by code_simp
  have 2: "\<lceil>(1562000000123 :: rat) * 10 ^ 6\<rceil> = 1562000000123000000" by simp
  have 3: "Math_ceil (round_double (3602879701896397 / 2 ^ 55 * 1000000)) = Num 100000"
    by code_simp
  have 4: "\<lceil>(3602879701896397 / 2 ^ 55 :: rat) * 10 ^ 6\<rceil> = 100001" by code_simp
  have g: "getTime E (DateTime (Num x)) False = Inr (Math_ceil (round_double (x * 1000000)))"
    for E :: "(log_row, nat) env" and x
    by (simp add: getTime_def js_times_def)
  show ?thesis unfolding g 1 3 using 2 4 by simp
qed

section \<open>Editing a query\<close>

text \<open>
  For an action whose type is not \<^verbatim>\<open>ADD_FILTER\<close>, \<^verbatim>\<open>modifyQuery\<close> raises nothing, does
  not apply the selector helper, and returns a query whose expression is the
  parsed selector and regex of the input, formatted again. What
  \<^verbatim>\<open>getHighlighterExpression\<close> returns for it is then up to the parser and the
  formatter, which are not among the sources.
\<close>

lemma modifyQuery_unknown_action:
  assumes "ref < length store" and "type a \<noteq> ''ADD_FILTER''"
  shows "\<exists>store' ref'. modifyQuery E store ref a = Inr (store', ref') \<and>
     expr (store' ! ref') =
       formatQuery E (query' (parseQuery E (expr (store ! ref)))) (regexp (parseQuery E (expr (store ! ref)))) \<and>
     getHighlighterExpression E (store' ! ref') =
       regexp (parseQuery E (formatQuery E (query' (parseQuery E (expr (store ! ref))))
                                          (regexp (parseQuery E (expr (store ! ref))))))"
  using assms by (simp add: modifyQuery_def Let_def getHighlighterExpression_def)

text \<open>
  C10. \<^verbatim>\<open>modifyQuery\<close> returns a reference to a new object: every object of the
  store is after the call what it was before, the input among them, and the new
  object differs from the input in its expression at most.
\<close>

theorem modifyQuery_leaves_input_unchanged:
  assumes "ref < length store"
  shows "\<exists>store' ref'. modifyQuery E store ref a = Inr (store', ref') \<and>
     length store \<le> ref' \<and> ref' < length store' \<and>
     length store' = Suc (length store) \<and>
     (\<forall>i<length store. store' ! i = store ! i) \<and>
     (store' ! ref')\<lparr>expr := expr (store ! ref)\<rparr> = store ! ref"
  using assms by (simp add: modifyQuery_def Let_def nth_append)

theorem modifyQuery_leaves_input_unchanged_witness:
  "\<exists>store' ref'.
     modifyQuery (example_env echo_transport) [target ''{a} x'' (Some ''logs'') (Some False)] 0
       \<lparr>type = ''ADD_FILTER'', key = ''k'', value = ''v''\<rparr> = Inr (store', ref') \<and>
     ref' = 1 \<and> store' ! 0 = target ''{a} x'' (Some ''logs'') (Some False) \<and>
     store' ! ref' = target ''{a}kv x'' (Some ''logs'') (Some False)"
proof -
  let ?s = "[target ''{a} x'' (Some ''logs'') (Some False)]"
  let ?a = "\<lparr>type = ''ADD_FILTER'', key = ''k'', value = ''v''\<rparr>"
  have 1: "0 < length ?s" by simp
  from modifyQuery_leaves_input_unchanged [OF 1, of "example_env echo_transport" ?a]
  obtain store' ref' where m: "modifyQuery (example_env echo_transport) ?s 0 ?a = Inr (store', ref')"
    and f: "\<forall>i<length ?s. store' ! i = ?s ! i" by blast
  have e: "modifyQuery (example_env echo_transport) ?s 0 ?a =
      Inr (?s @ [target ''{a}kv x'' (Some ''logs'') (Some False)], 1)"
    by (simp add: modifyQuery_def example_env_def target_def)
  from m e have "store' = ?s @ [target ''{a}kv x'' (Some ''logs'') (Some False)]" "ref' = 1" by simp_all
  with m f show ?thesis by simp
qed

section \<open>The cap on merged rows\<close>

lemma length_stream_rows: "length (concat (map stream_rows strs)) = raw_rows strs"
  by (induction strs) (simp_all add: raw_rows_def stream_rows_def)

lemma length_rows_spec:
  "length (rows (mergeStreamsToLogs_spec time_of strs cap)) = min (nat cap) (raw_rows strs)"
  by (simp add: mergeStreamsToLogs_spec_def length_stream_rows min.commute)

lemma decimal_time_examples:
  "decimal_time ''2'' = 2" "decimal_time ''9'' = 9" "decimal_time ''10'' = 10"
  by (simp_all add: decimal_time_def)

text \<open>
  C7 (as the code has it). \<^verbatim>\<open>mergeStreams\<close> hands the configured cap to the aggregation
  utility and keeps the rows it returns, and the \<^verbatim>\<open>time_series\<close> branch of the batch
  path returns the series of that same model. With the utility as the spec gives
  it and a cap that is not negative, the merged model never has more rows than the
  cap, has exactly that many when the streams hold more raw rows, and keeps the
  newest.
\<close>

theorem mergeStreams_respects_cap:
  assumes util: "mergeStreamsToLogs E = mergeStreamsToLogs_spec time_of"
    and cap: "0 \<le> maxLines ds"
  shows "rows (mergeStreams E ds strs interval) = rows (mergeStreamsToLogs E strs (maxLines ds)) \<and>
     rows (mergeStreams E ds strs interval) =
       take (nat (maxLines ds))
         (rev (sort_key (\<lambda>r. time_of (row_ts r)) (concat (map stream_rows strs)))) \<and>
     int (length (rows (mergeStreams E ds strs interval))) \<le> maxLines ds \<and>
     (maxLines ds < int (raw_rows strs) \<longrightarrow>
        int (length (rows (mergeStreams E ds strs interval))) = maxLines ds) \<and>
     (query_loop 0 results qts [] = Inr S \<and> targets options = t # rest \<and> format t = Some ''time_series'' \<longrightarrow>
        query_then E ds options qts results =
          Inr (map Inr (the (series (mergeStreams E ds S (intervalMs options))))))"
proof (intro conjI impI)
  show r: "rows (mergeStreams E ds strs interval) = rows (mergeStreamsToLogs E strs (maxLines ds))"
    by (simp add: mergeStreams_def Let_def)
  then show "rows (mergeStreams E ds strs interval) =
       take (nat (maxLines ds))
         (rev (sort_key (\<lambda>r. time_of (row_ts r)) (concat (map stream_rows strs))))"
    using util by (simp add: mergeStreamsToLogs_spec_def)
  have l: "length (rows (mergeStreams E ds strs interval)) = min (nat (maxLines ds)) (raw_rows strs)"
    using r util by (simp add: length_rows_spec)
  show "int (length (rows (mergeStreams E ds strs interval))) \<le> maxLines ds"
    using l cap by simp
  show "int (length (rows (mergeStreams E ds strs interval))) = maxLines ds"
    if "maxLines ds < int (raw_rows strs)"
    using l cap that by simp
  show "query_then E ds options qts results =
          Inr (map Inr (the (series (mergeStreams E ds S (intervalMs options)))))"
    if "query_loop 0 results qts [] = Inr S \<and> targets options = t # rest \<and> format t = Some ''time_series''"
    using that by (simp add: query_then_def mergeStreams_def Let_def)
qed

theorem mergeStreams_respects_cap_witness:
  "length (rows (mergeStreams (example_env echo_transport\<lparr>mergeStreamsToLogs := mergeStreamsToLogs_spec decimal_time\<rparr>)
      example_ds [example_stream ''{a}'' [''9'', ''10''], example_stream ''{b}'' [''2'']] 1000)) = 2 \<and>
   map row_ts (rows (mergeStreams (example_env echo_transport\<lparr>mergeStreamsToLogs := mergeStreamsToLogs_spec decimal_time\<rparr>)
      example_ds [example_stream ''{a}'' [''9'', ''10''], example_stream ''{b}'' [''2'']] 1000)) = [''10'', ''9''] \<and>
   query_then (example_env echo_transport\<lparr>mergeStreamsToLogs := mergeStreamsToLogs_spec decimal_time\<rparr>) example_ds
      (example_options example_targets) example_params (map Some example_results) = Inr [Inr 2]"
proof -
  let ?E = "example_env echo_transport\<lparr>mergeStreamsToLogs := mergeStreamsToLogs_spec decimal_time\<rparr>"
  let ?ss = "[example_stream ''{a}'' [''9'', ''10''], example_stream ''{b}'' [''2'']]"
  let ?S = "[(example_stream ''{a}'' [''1'', ''2''])\<lparr>search := Some ''x''\<rparr>,
             (example_stream ''{c}'' [''1'', ''2''])\<lparr>search := Some ''z''\<rparr>]"
  let ?o = "example_options example_targets"
  have u: "mergeStreamsToLogs ?E = mergeStreamsToLogs_spec decimal_time" by simp
  have c: "0 \<le> maxLines example_ds" by (simp add: example_defs)
  have m: "maxLines example_ds < int (raw_rows ?ss)"
    by (simp add: example_defs raw_rows_def)
  have l: "query_loop 0 (map Some example_results) example_params [] = Inr ?S"
    by (simp add: query_loop.simps example_defs truthy_body_def body_streams_def)
  have f: "targets ?o = target ''{a} x'' (Some ''time_series'') None # tl example_targets \<and>
           format (target ''{a} x'' (Some ''time_series'') None) = Some ''time_series''"
    by (simp add: example_defs)
  note t = mergeStreams_respects_cap [OF u c, where strs = ?ss and interval = 1000
      and results = "map Some example_results" and qts = example_params and S = ?S
      and options = ?o and t = "target ''{a} x'' (Some ''time_series'') None"
      and rest = "tl example_targets"]
  from t m have "int (length (rows (mergeStreams ?E example_ds ?ss 1000))) = maxLines example_ds"
    by blast
  then have 1: "length (rows (mergeStreams ?E example_ds ?ss 1000)) = 2"
    by (simp add: example_defs)
  from t have "rows (mergeStreams ?E example_ds ?ss 1000) =
       take (nat (maxLines example_ds))
         (rev (sort_key (\<lambda>r. decimal_time (row_ts r)) (concat (map stream_rows ?ss))))"
    by blast
  then have 2: "map row_ts (rows (mergeStreams ?E example_ds ?ss 1000)) = [''10'', ''9'']"
    by (simp add: example_defs decimal_time_examples)
  from t l f have "query_then ?E example_ds ?o example_params (map Some example_results) =
      Inr (map Inr (the (series (mergeStreams ?E example_ds ?S (intervalMs ?o)))))"
    by blast
  then have 3: "query_then ?E example_ds ?o example_params (map Some example_results) = Inr [Inr 2]"
    by (simp add: mergeStreams_def mergeStreamsToLogs_spec_def example_defs)
  from 1 2 3 show ?thesis by blast
qed

text \<open>
  C7 (as stated) fails for a negative cap, which the constructor keeps: no model
  has fewer than no rows. With the cap \<open>-5\<close> and three raw rows the merged model has
  no row, which is neither the cap nor at most the cap.
\<close>

theorem mergeStreams_negative_cap_counterexample:
  "maxLines negative_cap_ds = - 5 \<and>
   maxLines negative_cap_ds <
     int (raw_rows [example_stream ''{a}'' [''9'', ''10''], example_stream ''{b}'' [''2'']]) \<and>
   length (rows (mergeStreams (example_env echo_transport\<lparr>mergeStreamsToLogs := mergeStreamsToLogs_spec decimal_time\<rparr>)
      negative_cap_ds [example_stream ''{a}'' [''9'', ''10''], example_stream ''{b}'' [''2'']] 1000)) = 0 \<and>
   \<not> int (length (rows (mergeStreams (example_env echo_transport\<lparr>mergeStreamsToLogs := mergeStreamsToLogs_spec decimal_time\<rparr>)
      negative_cap_ds [example_stream ''{a}'' [''9'', ''10''], example_stream ''{b}'' [''2'']] 1000))) \<le> maxLines negative_cap_ds"
  by (simp add: negative_cap_ds_def new_LokiDatasource_def truthy_number_def mergeStreams_def
      mergeStreamsToLogs_spec_def raw_rows_def example_stream_def)

text \<open>Whatever the aggregation utility, a negative cap is below the number of rows of the merged model.\<close>

lemma negative_cap_exceeded:
  "maxLines ds < 0 \<Longrightarrow> maxLines ds < int (length (rows (mergeStreams E ds strs interval)))"
  by simp

end
